theory Spec2Isabelle
  imports Main "HOL-Library.Sublist"
begin

section \<open>The data model of src/core/atlas_graph.py\<close>

text \<open>
  \<^verbatim>\<open>Source = Literal["fhir", "dicom", "note", "lab", "device", "claims", "synthetic"]\<close>
  is a type alias. Python does not check annotations when a dataclass is constructed, so
  at run time a \<open>source\<close> field holds whatever string it was given. The alias is a
  string; the seven literals are kept as a list to talk about membership.
\<close>

type_synonym Source = string

definition Source_literals :: "Source list" where
  "Source_literals =
     [''fhir'', ''dicom'', ''note'', ''lab'', ''device'', ''claims'', ''synthetic'']"

text \<open>
  The four dataclasses. \<open>str | None\<close> is \<open>string option\<close>. The payload of a node is
  an arbitrary \<open>dict\<close>, which no operation of the module inspects: it is a type
  parameter. The fields \<open>id\<close> and \<open>kind\<close> occur in several classes and are written
  with the class name (\<open>Node.id\<close>, \<open>Edge.kind\<close>).
\<close>

record EvidenceRef =
  source :: Source
  id :: string
  uri :: "string option"
  captured_at :: "string option"

record 'p Node =
  id :: string
  kind :: string
  payload :: 'p

record Edge =
  src :: string
  dst :: string
  kind :: string
  evidence :: "EvidenceRef list"

record 'p AtlasGraph =
  nodes :: "string \<rightharpoonup> 'p Node"
  edges :: "Edge list"

section \<open>Outcomes of a call\<close>

text \<open>
  The module defines no exception class and contains no \<open>raise\<close>. The error type lists
  the exceptions a caller could be told to expect: \<open>ValidationError\<close> and
  \<open>IntegrityError\<close> with its two variants (named by the specification), and
  \<open>FrozenInstanceError\<close>, which the \<open>dataclasses\<close> library raises on assignment to a
  field of a frozen instance. A call yields \<open>Inl\<close> of the exception raised or \<open>Inr\<close> of
  what it returns.
\<close>

datatype IntegrityError = DanglingReference | EmptyEvidence

datatype error = ValidationError | IntegrityError IntegrityError | FrozenInstanceError

text \<open>What a method hands back: Python's \<open>None\<close>, or a \<open>bool\<close>.\<close>

datatype retval = PyNone | PyBool bool

section \<open>Methods generated by the dataclass decorator\<close>

text \<open>
  \<open>@dataclass\<close> generates \<open>__init__\<close>, which stores its arguments in the fields in
  declaration order and does nothing else (no class of the module defines
  \<open>__post_init__\<close>). \<open>uri\<close> and \<open>captured_at\<close> default to \<open>None\<close>.
\<close>

definition EvidenceRef_init ::
  "Source \<Rightarrow> string \<Rightarrow> string option \<Rightarrow> string option \<Rightarrow> error + EvidenceRef" where
  "EvidenceRef_init s i u c =
     Inr \<lparr>source = s, EvidenceRef.id = i, uri = u, captured_at = c\<rparr>"

definition Edge_init ::
  "string \<Rightarrow> string \<Rightarrow> string \<Rightarrow> EvidenceRef list \<Rightarrow> error + Edge" where
  "Edge_init s d k ev = Inr \<lparr>src = s, dst = d, Edge.kind = k, evidence = ev\<rparr>"

text \<open>
  An assignment \<open>obj.field = value\<close> to one of the four fields of an EvidenceRef, and the
  plain store it would perform on an ordinary object.
\<close>

datatype EvidenceRef_assignment =
    Set_source Source
  | Set_id string
  | Set_uri "string option"
  | Set_captured_at "string option"

fun EvidenceRef_store :: "EvidenceRef \<Rightarrow> EvidenceRef_assignment \<Rightarrow> EvidenceRef" where
  "EvidenceRef_store self (Set_source v) = self\<lparr>source := v\<rparr>"
| "EvidenceRef_store self (Set_id v) = self\<lparr>EvidenceRef.id := v\<rparr>"
| "EvidenceRef_store self (Set_uri v) = self\<lparr>uri := v\<rparr>"
| "EvidenceRef_store self (Set_captured_at v) = self\<lparr>captured_at := v\<rparr>"

text \<open>
  With \<open>frozen=True\<close> the decorator installs a \<open>__setattr__\<close> that raises
  \<open>FrozenInstanceError\<close> for an instance of the class; without it the assignment is the
  plain store.
\<close>

definition dataclass_setattr :: "bool \<Rightarrow> ('r \<Rightarrow> 'a \<Rightarrow> 'r) \<Rightarrow> 'r \<Rightarrow> 'a \<Rightarrow> error + 'r" where
  "dataclass_setattr frozen store self a =
     (if frozen then Inl FrozenInstanceError else Inr (store self a))"

text \<open>\<^verbatim>\<open>@dataclass(frozen=True) class EvidenceRef\<close>\<close>

definition EvidenceRef_setattr :: "EvidenceRef \<Rightarrow> EvidenceRef_assignment \<Rightarrow> error + EvidenceRef" where
  "EvidenceRef_setattr = dataclass_setattr True EvidenceRef_store"

text \<open>
  The generated \<open>__eq__\<close> of two instances of the class compares the tuples of their
  fields.
\<close>

definition EvidenceRef_eq :: "EvidenceRef \<Rightarrow> EvidenceRef \<Rightarrow> bool" where
  "EvidenceRef_eq self other \<longleftrightarrow>
     (source self, EvidenceRef.id self, uri self, captured_at self)
       = (source other, EvidenceRef.id other, uri other, captured_at other)"

section \<open>AtlasGraph\<close>

text \<open>
  \<^verbatim>\<open>
  def add_node(self, node: Node) -> None:
      if node.id in self.nodes:
          return
      self.nodes[node.id] = node

  def add_edge(self, edge: Edge) -> None:
      self.edges.append(edge)
  \<close>
  The graph is passed in and the updated graph is returned next to the value the method
  hands back. Neither method writes to a node or an edge, so the mapping and the list
  hold the values they were given.
\<close>

definition add_node :: "'p AtlasGraph \<Rightarrow> 'p Node \<Rightarrow> error + retval \<times> 'p AtlasGraph" where
  "add_node self node =
     (if nodes self (Node.id node) \<noteq> None then Inr (PyNone, self)
      else Inr (PyNone, self\<lparr>nodes := (nodes self)(Node.id node \<mapsto> node)\<rparr>))"

definition add_edge :: "'p AtlasGraph \<Rightarrow> Edge \<Rightarrow> error + retval \<times> 'p AtlasGraph" where
  "add_edge self edge = Inr (PyNone, self\<lparr>edges := edges self @ [edge]\<rparr>)"

text \<open>
  The graphs that calls of \<open>add_node\<close> and \<open>add_edge\<close> build from the empty graph
  \<^verbatim>\<open>AtlasGraph(nodes={}, edges=[])\<close>.
\<close>

inductive reachable :: "'p AtlasGraph \<Rightarrow> bool" where
  empty: "reachable \<lparr>nodes = Map.empty, edges = []\<rparr>"
| node: "reachable g \<Longrightarrow> add_node g n = Inr (r, g') \<Longrightarrow> reachable g'"
| edge: "reachable g \<Longrightarrow> add_edge g e = Inr (r, g') \<Longrightarrow> reachable g'"

section \<open>Unconditional edge append\<close>

text \<open>
  C10. For every edge and every graph, whatever the evidence list and the endpoints are,
  \<open>add_edge\<close> raises nothing and returns; the edge sequence afterwards is the previous
  one with the edge appended at the end, and the node mapping is the same.
\<close>

theorem add_edge_appends:
  "\<exists>g'. add_edge g e = Inr (PyNone, g') \<and> edges g' = edges g @ [e] \<and> nodes g' = nodes g"
  by (simp add: add_edge_def)

section \<open>Edges with missing endpoints\<close>

text \<open>
  C1, as stated: an edge whose \<open>src\<close> or \<open>dst\<close> is not a key of the node mapping makes
  \<open>add_edge\<close> fail with \<open>DanglingReference\<close> and leaves the edge sequence as long as it
  was. The code has no such check. On the empty graph, where no id is present, the edge
  from \<open>obs/99\<close> to \<open>patient/1\<close> is appended: the call returns \<open>None\<close> and the edge
  sequence has grown from length 0 to length 1.
\<close>

theorem add_edge_dangling_counterexample:
  "nodes \<lparr>nodes = (Map.empty :: string \<rightharpoonup> unit Node), edges = []\<rparr> ''obs/99'' = None
   \<and> add_edge \<lparr>nodes = (Map.empty :: string \<rightharpoonup> unit Node), edges = []\<rparr>
         \<lparr>src = ''obs/99'', dst = ''patient/1'', Edge.kind = ''subject'',
          evidence = [\<lparr>source = ''fhir'', EvidenceRef.id = ''Observation/1'',
                       uri = None, captured_at = None\<rparr>]\<rparr>
       = Inr (PyNone,
           \<lparr>nodes = Map.empty,
            edges = [\<lparr>src = ''obs/99'', dst = ''patient/1'', Edge.kind = ''subject'',
                      evidence = [\<lparr>source = ''fhir'', EvidenceRef.id = ''Observation/1'',
                                   uri = None, captured_at = None\<rparr>]\<rparr>]\<rparr>)
   \<and> add_edge \<lparr>nodes = (Map.empty :: string \<rightharpoonup> unit Node), edges = []\<rparr>
         \<lparr>src = ''obs/99'', dst = ''patient/1'', Edge.kind = ''subject'',
          evidence = [\<lparr>source = ''fhir'', EvidenceRef.id = ''Observation/1'',
                       uri = None, captured_at = None\<rparr>]\<rparr>
       \<noteq> Inl (IntegrityError DanglingReference)"
  by (simp add: add_edge_def)

text \<open>
  C1, amended: for every edge whose \<open>src\<close> or \<open>dst\<close> is not a key of the node mapping,
  \<open>add_edge\<close> does not fail. It returns \<open>None\<close>, the edge sequence is one longer with
  that edge as its last element, and the node mapping is the same.
\<close>

theorem add_edge_dangling_accepted:
  "nodes g (src e) = None \<or> nodes g (dst e) = None \<Longrightarrow>
     \<exists>g'. add_edge g e = Inr (PyNone, g') \<and> length (edges g') = Suc (length (edges g))
          \<and> last (edges g') = e \<and> nodes g' = nodes g"
  by (simp add: add_edge_def)

theorem add_edge_dangling_accepted_witness:
  "(nodes \<lparr>nodes = (Map.empty :: string \<rightharpoonup> unit Node), edges = []\<rparr> ''obs/99'' = None
      \<or> nodes \<lparr>nodes = (Map.empty :: string \<rightharpoonup> unit Node), edges = []\<rparr> ''patient/1'' = None)
   \<and> (\<exists>g'. add_edge \<lparr>nodes = (Map.empty :: string \<rightharpoonup> unit Node), edges = []\<rparr>
               \<lparr>src = ''obs/99'', dst = ''patient/1'', Edge.kind = ''subject'', evidence = []\<rparr>
             = Inr (PyNone, g')
          \<and> length (edges g') = Suc 0
          \<and> last (edges g')
              = \<lparr>src = ''obs/99'', dst = ''patient/1'', Edge.kind = ''subject'', evidence = []\<rparr>
          \<and> nodes g' = Map.empty)"
  using add_edge_dangling_accepted
    [of "\<lparr>nodes = (Map.empty :: string \<rightharpoonup> unit Node), edges = []\<rparr>"
        "\<lparr>src = ''obs/99'', dst = ''patient/1'', Edge.kind = ''subject'', evidence = []\<rparr>"]
  by simp

section \<open>Edges without evidence\<close>

text \<open>
  C2, as stated: an edge with an empty evidence list is rejected, at construction or by
  \<open>add_edge\<close>, and is never committed. The code checks the evidence list nowhere:
  constructing the edge succeeds, \<open>add_edge\<close> returns \<open>None\<close>, and the edge with no
  evidence is the one element of the edge sequence afterwards.
\<close>

theorem empty_evidence_counterexample:
  "Edge_init ''a'' ''b'' ''subject'' []
     = Inr \<lparr>src = ''a'', dst = ''b'', Edge.kind = ''subject'', evidence = []\<rparr>
   \<and> add_edge
        \<lparr>nodes = [''a'' \<mapsto> \<lparr>Node.id = ''a'', Node.kind = ''Observation'', payload = ()\<rparr>,
                  ''b'' \<mapsto> \<lparr>Node.id = ''b'', Node.kind = ''Patient'', payload = ()\<rparr>],
         edges = []\<rparr>
        \<lparr>src = ''a'', dst = ''b'', Edge.kind = ''subject'', evidence = []\<rparr>
     = Inr (PyNone,
         \<lparr>nodes = [''a'' \<mapsto> \<lparr>Node.id = ''a'', Node.kind = ''Observation'', payload = ()\<rparr>,
                   ''b'' \<mapsto> \<lparr>Node.id = ''b'', Node.kind = ''Patient'', payload = ()\<rparr>],
          edges = [\<lparr>src = ''a'', dst = ''b'', Edge.kind = ''subject'', evidence = []\<rparr>]\<rparr>)"
  by (simp add: Edge_init_def add_edge_def)

text \<open>
  C2, amended: an edge with an empty evidence list is accepted. Constructing it succeeds
  and keeps the empty list, and \<open>add_edge\<close> on it returns \<open>None\<close> with the edge in the
  edge sequence.
\<close>

theorem empty_evidence_accepted:
  "Edge_init s d k [] = Inr \<lparr>src = s, dst = d, Edge.kind = k, evidence = []\<rparr>
   \<and> (evidence e = [] \<longrightarrow>
        (\<exists>g'. add_edge g e = Inr (PyNone, g') \<and> e \<in> set (edges g')))"
  by (simp add: Edge_init_def add_edge_def)

theorem empty_evidence_accepted_witness:
  "evidence \<lparr>src = ''a'', dst = ''b'', Edge.kind = ''subject'', evidence = []\<rparr> = []
   \<and> (\<exists>g'. add_edge \<lparr>nodes = (Map.empty :: string \<rightharpoonup> unit Node), edges = []\<rparr>
               \<lparr>src = ''a'', dst = ''b'', Edge.kind = ''subject'', evidence = []\<rparr>
             = Inr (PyNone, g')
          \<and> \<lparr>src = ''a'', dst = ''b'', Edge.kind = ''subject'', evidence = []\<rparr>
              \<in> set (edges g'))"
  using empty_evidence_accepted
    [of "''a''" "''b''" "''subject''"
        "\<lparr>src = ''a'', dst = ''b'', Edge.kind = ''subject'', evidence = []\<rparr>"
        "\<lparr>nodes = (Map.empty :: string \<rightharpoonup> unit Node), edges = []\<rparr>"]
  by simp

section \<open>Node insertion\<close>

text \<open>
  C3. Calling \<open>add_node\<close> with the same node twice gives the graph that one call gives:
  the second call returns and changes nothing, so the node mapping is the same. When the
  id of the node is already a key, the call changes nothing and the node stored under that
  key stays the one that was there, whatever the new node holds.
\<close>

theorem add_node_idempotent:
  "(\<exists>r1 g1 r2 g2. add_node g n = Inr (r1, g1) \<and> add_node g1 n = Inr (r2, g2)
        \<and> g2 = g1 \<and> nodes g2 = nodes g1)
   \<and> (\<forall>m. nodes g (Node.id n) = Some m \<longrightarrow>
         (\<exists>r g'. add_node g n = Inr (r, g') \<and> g' = g \<and> nodes g' (Node.id n) = Some m))"
  by (simp add: add_node_def)

theorem add_node_idempotent_witness:
  "nodes \<lparr>nodes = [''p'' \<mapsto> \<lparr>Node.id = ''p'', Node.kind = ''Patient'', payload = ''old''\<rparr>],
          edges = []\<rparr> ''p''
     = Some \<lparr>Node.id = ''p'', Node.kind = ''Patient'', payload = ''old''\<rparr>
   \<and> (\<exists>r g'. add_node
                \<lparr>nodes = [''p'' \<mapsto> \<lparr>Node.id = ''p'', Node.kind = ''Patient'', payload = ''old''\<rparr>],
                 edges = []\<rparr>
                \<lparr>Node.id = ''p'', Node.kind = ''Person'', payload = ''new''\<rparr>
              = Inr (r, g')
          \<and> nodes g' ''p'' = Some \<lparr>Node.id = ''p'', Node.kind = ''Patient'', payload = ''old''\<rparr>)"
  using add_node_idempotent
    [of "\<lparr>nodes = [''p'' \<mapsto> \<lparr>Node.id = ''p'', Node.kind = ''Patient'', payload = ''old''\<rparr>],
          edges = []\<rparr>"
        "\<lparr>Node.id = ''p'', Node.kind = ''Person'', payload = ''new''\<rparr>"]
  by (simp add: add_node_def)

text \<open>
  C4, as stated: \<open>add_node\<close> returns \<open>true\<close> when it inserted the node and \<open>false\<close>
  when the id was already present. The method is declared \<open>-> None\<close> and returns
  \<open>None\<close> on both paths: on the empty graph the node is inserted and the call hands
  back \<open>None\<close>, not \<open>True\<close>; on the graph that holds the node the call hands back
  \<open>None\<close>, not \<open>False\<close>.
\<close>

theorem add_node_bool_counterexample:
  "add_node \<lparr>nodes = Map.empty, edges = []\<rparr>
       \<lparr>Node.id = ''p'', Node.kind = ''Patient'', payload = ()\<rparr>
     = Inr (PyNone,
         \<lparr>nodes = [''p'' \<mapsto> \<lparr>Node.id = ''p'', Node.kind = ''Patient'', payload = ()\<rparr>],
          edges = []\<rparr>)
   \<and> PyNone \<noteq> PyBool True
   \<and> add_node
        \<lparr>nodes = [''p'' \<mapsto> \<lparr>Node.id = ''p'', Node.kind = ''Patient'', payload = ()\<rparr>],
         edges = []\<rparr>
        \<lparr>Node.id = ''p'', Node.kind = ''Patient'', payload = ()\<rparr>
     = Inr (PyNone,
         \<lparr>nodes = [''p'' \<mapsto> \<lparr>Node.id = ''p'', Node.kind = ''Patient'', payload = ()\<rparr>],
          edges = []\<rparr>)
   \<and> PyNone \<noteq> PyBool False"
  by (simp add: add_node_def)

text \<open>
  C4, amended: \<open>add_node\<close> returns \<open>None\<close> on both paths. When the id of the node is
  not yet a key, the node is stored under its id and nothing else changes; when the id is
  already a key, the graph is left as it was (no side effect).
\<close>

theorem add_node_returns_None:
  "(nodes g (Node.id n) = None \<longrightarrow>
      add_node g n = Inr (PyNone, g\<lparr>nodes := (nodes g)(Node.id n \<mapsto> n)\<rparr>))
   \<and> (nodes g (Node.id n) \<noteq> None \<longrightarrow> add_node g n = Inr (PyNone, g))"
  by (simp add: add_node_def)

theorem add_node_returns_None_witness:
  "nodes \<lparr>nodes = (Map.empty :: string \<rightharpoonup> unit Node), edges = []\<rparr> ''p'' = None
   \<and> add_node \<lparr>nodes = Map.empty, edges = []\<rparr>
         \<lparr>Node.id = ''p'', Node.kind = ''Patient'', payload = ()\<rparr>
       = Inr (PyNone,
           \<lparr>nodes = [''p'' \<mapsto> \<lparr>Node.id = ''p'', Node.kind = ''Patient'', payload = ()\<rparr>],
            edges = []\<rparr>)
   \<and> nodes \<lparr>nodes = [''p'' \<mapsto> \<lparr>Node.id = ''p'', Node.kind = ''Patient'', payload = ()\<rparr>],
            edges = []\<rparr> ''p'' \<noteq> None
   \<and> add_node
        \<lparr>nodes = [''p'' \<mapsto> \<lparr>Node.id = ''p'', Node.kind = ''Patient'', payload = ()\<rparr>],
         edges = []\<rparr>
        \<lparr>Node.id = ''p'', Node.kind = ''Person'', payload = ()\<rparr>
       = Inr (PyNone,
           \<lparr>nodes = [''p'' \<mapsto> \<lparr>Node.id = ''p'', Node.kind = ''Patient'', payload = ()\<rparr>],
            edges = []\<rparr>)"
  using add_node_returns_None
    [of "\<lparr>nodes = Map.empty, edges = []\<rparr>"
        "\<lparr>Node.id = ''p'', Node.kind = ''Patient'', payload = ()\<rparr>"]
    add_node_returns_None
    [of "\<lparr>nodes = [''p'' \<mapsto> \<lparr>Node.id = ''p'', Node.kind = ''Patient'', payload = ()\<rparr>],
          edges = []\<rparr>"
        "\<lparr>Node.id = ''p'', Node.kind = ''Person'', payload = ()\<rparr>"]
  by simp

section \<open>Invariants of the reachable graphs\<close>

text \<open>
  C5. In every graph built from the empty graph by calls of \<open>add_node\<close> and
  \<open>add_edge\<close>, each key of the node mapping is the id of the node stored under it.
\<close>

theorem node_keys_are_ids:
  "reachable g \<Longrightarrow> nodes g k = Some n \<Longrightarrow> Node.id n = k"
proof (induction arbitrary: k n rule: reachable.induct)
  case empty
  then show ?case by simp
next
  case (node g m r g')
  from node.hyps(2) have "g' = g \<or> g' = g\<lparr>nodes := (nodes g)(Node.id m \<mapsto> m)\<rparr>"
    by (auto simp: add_node_def split: if_splits)
  then show ?case
  proof
    assume "g' = g"
    with node.IH node.prems show ?thesis by simp
  next
    assume upd: "g' = g\<lparr>nodes := (nodes g)(Node.id m \<mapsto> m)\<rparr>"
    show ?thesis
    proof (cases "k = Node.id m")
      case True
      with upd node.prems show ?thesis by simp
    next
      case False
      with upd node.prems have "nodes g k = Some n" by simp
      then show ?thesis by (rule node.IH)
    qed
  qed
next
  case (edge g e r g')
  from edge.hyps(2) have "nodes g' = nodes g" by (auto simp: add_edge_def)
  with edge.prems have "nodes g k = Some n" by simp
  then show ?case by (rule edge.IH)
qed

theorem node_keys_are_ids_witness:
  "reachable
     \<lparr>nodes = [''p'' \<mapsto> \<lparr>Node.id = ''p'', Node.kind = ''Patient'', payload = ()\<rparr>],
      edges = [\<lparr>src = ''o'', dst = ''p'', Edge.kind = ''subject'', evidence = []\<rparr>]\<rparr>
   \<and> nodes
       \<lparr>nodes = [''p'' \<mapsto> \<lparr>Node.id = ''p'', Node.kind = ''Patient'', payload = ()\<rparr>],
        edges = [\<lparr>src = ''o'', dst = ''p'', Edge.kind = ''subject'', evidence = []\<rparr>]\<rparr> ''p''
     = Some \<lparr>Node.id = ''p'', Node.kind = ''Patient'', payload = ()\<rparr>
   \<and> Node.id \<lparr>Node.id = ''p'', Node.kind = ''Patient'', payload = ()\<rparr> = ''p''"
proof -
  let ?n = "\<lparr>Node.id = ''p'', Node.kind = ''Patient'', payload = ()\<rparr>"
  let ?e = "\<lparr>src = ''o'', dst = ''p'', Edge.kind = ''subject'', evidence = []\<rparr>"
  let ?g0 = "\<lparr>nodes = (Map.empty :: string \<rightharpoonup> unit Node), edges = []\<rparr>"
  let ?g1 = "\<lparr>nodes = [''p'' \<mapsto> ?n], edges = []\<rparr>"
  let ?g2 = "\<lparr>nodes = [''p'' \<mapsto> ?n], edges = [?e]\<rparr>"
  have r0: "reachable ?g0" by (rule reachable.empty)
  have "add_node ?g0 ?n = Inr (PyNone, ?g1)" by (simp add: add_node_def)
  with r0 have r1: "reachable ?g1" by (rule reachable.node)
  have "add_edge ?g1 ?e = Inr (PyNone, ?g2)" by (simp add: add_edge_def)
  with r1 have r2: "reachable ?g2" by (rule reachable.edge)
  have l: "nodes ?g2 ''p'' = Some ?n" by simp
  from r2 l node_keys_are_ids [OF r2 l] show ?thesis by simp
qed

text \<open>
  C6. A call of \<open>add_node\<close> or \<open>add_edge\<close> that returns keeps every node that was in
  the mapping, under the same key and with the same value, and the edge sequence before
  the call is a prefix of the edge sequence after it.
\<close>

theorem mutations_monotonic:
  "add_node g n = Inr (r, g') \<or> add_edge g e = Inr (r, g') \<Longrightarrow>
     (\<forall>k v. nodes g k = Some v \<longrightarrow> nodes g' k = Some v) \<and> prefix (edges g) (edges g')"
  by (auto simp: add_node_def add_edge_def split: if_splits)

theorem mutations_monotonic_witness:
  "add_edge
     \<lparr>nodes = [''p'' \<mapsto> \<lparr>Node.id = ''p'', Node.kind = ''Patient'', payload = ()\<rparr>],
      edges = [\<lparr>src = ''o'', dst = ''p'', Edge.kind = ''subject'', evidence = []\<rparr>]\<rparr>
     \<lparr>src = ''p'', dst = ''p'', Edge.kind = ''self'', evidence = []\<rparr>
   = Inr (PyNone,
       \<lparr>nodes = [''p'' \<mapsto> \<lparr>Node.id = ''p'', Node.kind = ''Patient'', payload = ()\<rparr>],
        edges = [\<lparr>src = ''o'', dst = ''p'', Edge.kind = ''subject'', evidence = []\<rparr>,
                 \<lparr>src = ''p'', dst = ''p'', Edge.kind = ''self'', evidence = []\<rparr>]\<rparr>)
   \<and> prefix [\<lparr>src = ''o'', dst = ''p'', Edge.kind = ''subject'', evidence = []\<rparr>]
        [\<lparr>src = ''o'', dst = ''p'', Edge.kind = ''subject'', evidence = []\<rparr>,
         \<lparr>src = ''p'', dst = ''p'', Edge.kind = ''self'', evidence = []\<rparr>]"
proof -
  let ?n = "\<lparr>Node.id = ''p'', Node.kind = ''Patient'', payload = ()\<rparr>"
  let ?e1 = "\<lparr>src = ''o'', dst = ''p'', Edge.kind = ''subject'', evidence = []\<rparr>"
  let ?e2 = "\<lparr>src = ''p'', dst = ''p'', Edge.kind = ''self'', evidence = []\<rparr>"
  let ?g = "\<lparr>nodes = [''p'' \<mapsto> ?n], edges = [?e1]\<rparr>"
  let ?g' = "\<lparr>nodes = [''p'' \<mapsto> ?n], edges = [?e1, ?e2]\<rparr>"
  have c: "add_edge ?g ?e2 = Inr (PyNone, ?g')" by (simp add: add_edge_def)
  then have "add_node ?g ?n = Inr (PyNone, ?g') \<or> add_edge ?g ?e2 = Inr (PyNone, ?g')" ..
  from mutations_monotonic [OF this] have "prefix (edges ?g) (edges ?g')" by blast
  with c show ?thesis by simp
qed

section \<open>EvidenceRef\<close>

text \<open>
  C7. An EvidenceRef is a value: an assignment to any of its four fields fails (with
  \<open>FrozenInstanceError\<close>), and two EvidenceRef values whose four fields agree compare
  equal and are the same value, so that either can stand for the other.
\<close>

theorem EvidenceRef_value_semantics:
  "EvidenceRef_setattr r a = Inl FrozenInstanceError
   \<and> (source x = source y \<and> EvidenceRef.id x = EvidenceRef.id y \<and> uri x = uri y
        \<and> captured_at x = captured_at y \<longrightarrow> EvidenceRef_eq x y \<and> x = y)"
  by (simp add: EvidenceRef_setattr_def dataclass_setattr_def EvidenceRef_eq_def)

theorem EvidenceRef_value_semantics_witness:
  "EvidenceRef_setattr
     \<lparr>source = ''fhir'', EvidenceRef.id = ''Observation/1'', uri = None, captured_at = None\<rparr>
     (Set_uri (Some ''https://example.org/Observation/1''))
   = Inl FrozenInstanceError
   \<and> source (\<lparr>source = ''lab'', EvidenceRef.id = ''Observation/1'', uri = None,
               captured_at = None\<rparr>\<lparr>source := ''fhir''\<rparr>) = ''fhir''
   \<and> EvidenceRef_eq
       \<lparr>source = ''fhir'', EvidenceRef.id = ''Observation/1'', uri = None, captured_at = None\<rparr>
       (\<lparr>source = ''lab'', EvidenceRef.id = ''Observation/1'', uri = None,
         captured_at = None\<rparr>\<lparr>source := ''fhir''\<rparr>)"
  using EvidenceRef_value_semantics
    [of "\<lparr>source = ''fhir'', EvidenceRef.id = ''Observation/1'', uri = None,
          captured_at = None\<rparr>"
        "Set_uri (Some ''https://example.org/Observation/1'')"
        "\<lparr>source = ''fhir'', EvidenceRef.id = ''Observation/1'', uri = None,
          captured_at = None\<rparr>"
        "\<lparr>source = ''lab'', EvidenceRef.id = ''Observation/1'', uri = None,
          captured_at = None\<rparr>\<lparr>source := ''fhir''\<rparr>"]
  by simp

text \<open>
  C8, as stated: constructing an EvidenceRef fails when the source is not one of the seven
  literals or when the id is empty. The constructor checks neither. With the source
  \<open>fhir\<close> and the empty id it returns the instance; with the source \<open>bogus\<close>, which is
  none of the seven literals, it returns the instance as well.
\<close>

theorem EvidenceRef_init_counterexample:
  "EvidenceRef_init ''fhir'' [] None None
     = Inr \<lparr>source = ''fhir'', EvidenceRef.id = [], uri = None, captured_at = None\<rparr>
   \<and> ''bogus'' \<notin> set Source_literals
   \<and> EvidenceRef_init ''bogus'' ''Observation/1'' None None
     = Inr \<lparr>source = ''bogus'', EvidenceRef.id = ''Observation/1'', uri = None,
            captured_at = None\<rparr>"
  by (simp add: EvidenceRef_init_def Source_literals_def)

text \<open>
  C8, amended: constructing an EvidenceRef validates nothing. For every source string
  (the seven literals are a static annotation only), every id (the empty string
  included), and every uri and capture time, the construction succeeds and the instance
  holds the four values as given.
\<close>

theorem EvidenceRef_init_accepts_all:
  "\<exists>ref. EvidenceRef_init s i u c = Inr ref \<and> source ref = s \<and> EvidenceRef.id ref = i
         \<and> uri ref = u \<and> captured_at ref = c"
  by (simp add: EvidenceRef_init_def)

end
